theory Spec2Isabelle
  imports Main "HOL-Library.Word"
begin

section \<open>Data model\<close>

text \<open>
  The cart handlers of \<^verbatim>\<open>package handlers\<close> (CreateCart, AddOrUpdateCartItem,
  GetAllCartItems, GetCart, DeleteCart, RemoveCartItemFromCart) are embedded as pure
  functions over an explicit world: the relational store behind \<^verbatim>\<open>config.DB\<close> and
  the Redis cache behind \<^verbatim>\<open>config.RDB\<close>.

  A \<^verbatim>\<open>uuid.UUID\<close> is identified with its canonical text, so \<^verbatim>\<open>UUID.String()\<close>
  is the identity. Go's \<^verbatim>\<open>int\<close> is the 64-bit two's complement integer of the
  usual targets: \<open>+\<close> wraps and comparisons are signed.
\<close>

type_synonym uuid = string
type_synonym go_int = "64 word"

definition uuid_Nil :: uuid where
  "uuid_Nil = ''00000000-0000-0000-0000-000000000000''"

definition uuid_String :: "uuid \<Rightarrow> string" where
  "uuid_String u = u"

text \<open>
  \<^verbatim>\<open>models.Cart\<close> and \<^verbatim>\<open>models.CartItems\<close>: the columns the handlers read or write.
  The timestamps \<^verbatim>\<open>AddedAt\<close>/\<^verbatim>\<open>UpdatedAt\<close> and the association fields are left
  out (no handler reads them); \<^verbatim>\<open>DeletedAt\<close> is the soft-delete marker, a row is live
  when it is \<open>None\<close>.
\<close>

record Cart =
  Cart_ID :: uuid
  Cart_UserID :: uuid
  Cart_DeletedAt :: "nat option"

record CartItems =
  Item_ID :: uuid
  Item_CartID :: uuid
  Item_ProductID :: uuid
  Item_Quantity :: go_int
  Item_DeletedAt :: "nat option"

text \<open>
  \<^verbatim>\<open>models.Product\<close> is not among the sources; the handlers use its field
  \<^verbatim>\<open>NumberOfStock\<close> only, compared with an \<^verbatim>\<open>int\<close> expression, hence an \<^verbatim>\<open>int\<close>.
\<close>

record Product =
  Product_ID :: uuid
  Product_NumberOfStock :: go_int

record AddCartItemRequest =
  Req_ProductID :: uuid
  Req_Quantity :: go_int

datatype error =
    ErrRecordNotFound    \<comment> \<open>\<^verbatim>\<open>gorm.ErrRecordNotFound\<close>\<close>
  | ErrStore             \<comment> \<open>any other error of the store\<close>
  | RedisNil             \<comment> \<open>\<^verbatim>\<open>redis.Nil\<close>: the key is not in the cache\<close>
  | ErrRedis             \<comment> \<open>any other error of the cache client\<close>
  | ErrJSON              \<comment> \<open>\<^verbatim>\<open>json.Unmarshal\<close> failed\<close>
  | ErrBind              \<comment> \<open>\<^verbatim>\<open>ShouldBindJSON\<close> failed\<close>
  | ErrUUID              \<comment> \<open>\<^verbatim>\<open>uuid.Parse\<close> failed\<close>

datatype go_panic = NilPointerDereference | TypeAssertionFailed

section \<open>The store behind \<^verbatim>\<open>config.DB\<close>\<close>

text \<open>
  The tables, and the environment of a run: \<open>db_faults\<close> scripts the store's failures
  (each call consumes one entry, \<open>True\<close> makes that call fail; an exhausted script means
  no failure), \<open>uuid_pool\<close> holds the values \<^verbatim>\<open>gen_random_uuid()\<close> will produce (an
  insert that finds the pool empty fails like any other failure of the store), and
  \<open>db_log\<close> records which repository functions were called.
\<close>

datatype store_op =
    OpGetCartByUserId | OpCreateCart | OpGetProductByUUID | OpGetCartItem
  | OpCreateCartItem | OpUpdateCartItem | OpRemoveCartItemFrom | OpGetCartItems

record store =
  carts :: "Cart list"
  cart_items :: "CartItems list"
  products :: "Product list"
  db_faults :: "bool list"
  uuid_pool :: "uuid list"
  db_log :: "store_op list"

definition db_call :: "store_op \<Rightarrow> store \<Rightarrow> bool \<times> store" where
  "db_call opn st =
     (case db_faults st of
        [] \<Rightarrow> (False, st\<lparr>db_log := db_log st @ [opn]\<rparr>)
      | f # fs \<Rightarrow> (f, st\<lparr>db_faults := fs, db_log := db_log st @ [opn]\<rparr>))"

definition live_cart_of :: "uuid \<Rightarrow> Cart \<Rightarrow> bool" where
  "live_cart_of u c = (Cart_UserID c = u \<and> Cart_DeletedAt c = None)"

definition live_item_of :: "uuid \<Rightarrow> uuid \<Rightarrow> CartItems \<Rightarrow> bool" where
  "live_item_of c p r = (Item_CartID r = c \<and> Item_ProductID r = p \<and> Item_DeletedAt r = None)"

text \<open>
  Modelled from the spec: package \<^verbatim>\<open>repository\<close> is not among the sources. Section 6
  gives the Cart Store as
  \<^verbatim>\<open>getCartByUser(userId) -> Cart | notFound\<close>, \<^verbatim>\<open>createCart(userId) -> ()\<close>,
  \<^verbatim>\<open>getItem(cartId, productId) -> CartItem | notFound\<close>, \<^verbatim>\<open>createItem(item) -> ()\<close>,
  \<^verbatim>\<open>updateItem(item) -> ()\<close>, \<^verbatim>\<open>deleteItem(cartId, productId) -> ()\<close>,
  \<^verbatim>\<open>listItems(cartId) -> [CartItem]\<close> and the Stock Ledger Accessor as
  \<^verbatim>\<open>getProduct(productId) -> (availableStock, found)\<close>; every call may also fail
  (StoreFailure). Lookups see live rows only. The handlers compare the cart a lookup
  returns with nil, so \<^verbatim>\<open>GetCartByUserId\<close> returns the Go pair \<^verbatim>\<open>(*Cart, error)\<close>, a
  nil pointer being \<open>None\<close>: the cart and no error, or no cart and the error. The other
  lookups return a value of \<open>error + T\<close>.
\<close>

definition GetCartByUserId :: "uuid \<Rightarrow> store \<Rightarrow> (Cart option \<times> error option) \<times> store" where
  "GetCartByUserId userId st =
     (case db_call OpGetCartByUserId st of
        (True, st') \<Rightarrow> ((None, Some ErrStore), st')
      | (False, st') \<Rightarrow>
          (case find (live_cart_of userId) (carts st') of
             None \<Rightarrow> ((None, Some ErrRecordNotFound), st')
           | Some c \<Rightarrow> ((Some c, None), st')))"

text \<open>
  Modelled from the spec: \<^verbatim>\<open>repository.CreateCart\<close>. The new row takes its identifier
  from \<^verbatim>\<open>gen_random_uuid()\<close>; the insert fails on a primary-key clash and on the unique
  constraint on the owning user (\<^verbatim>\<open>gorm:"...;unique;index"\<close> on \<^verbatim>\<open>Cart.UserID\<close>).
\<close>

definition repository_CreateCart :: "uuid \<Rightarrow> store \<Rightarrow> error option \<times> store" where
  "repository_CreateCart userId st =
     (case db_call OpCreateCart st of
        (True, st') \<Rightarrow> (Some ErrStore, st')
      | (False, st') \<Rightarrow>
          (case uuid_pool st' of
             [] \<Rightarrow> (Some ErrStore, st')
           | i # pool \<Rightarrow>
               if i \<in> set (map Cart_ID (carts st')) \<or> userId \<in> set (map Cart_UserID (carts st'))
               then (Some ErrStore, st'\<lparr>uuid_pool := pool\<rparr>)
               else (None, st'\<lparr>uuid_pool := pool,
                       carts := carts st' @
                         [\<lparr>Cart_ID = i, Cart_UserID = userId, Cart_DeletedAt = None\<rparr>]\<rparr>)))"

text \<open>Modelled from the spec: \<^verbatim>\<open>repository.GetProductByUUID\<close>.\<close>

definition GetProductByUUID :: "uuid \<Rightarrow> store \<Rightarrow> (error + Product) \<times> store" where
  "GetProductByUUID productID st =
     (case db_call OpGetProductByUUID st of
        (True, st') \<Rightarrow> (Inl ErrStore, st')
      | (False, st') \<Rightarrow>
          (case find (\<lambda>p. Product_ID p = productID) (products st') of
             None \<Rightarrow> (Inl ErrRecordNotFound, st')
           | Some p \<Rightarrow> (Inr p, st')))"

text \<open>Modelled from the spec: \<^verbatim>\<open>repository.GetCartItem\<close>.\<close>

definition GetCartItem :: "uuid \<Rightarrow> uuid \<Rightarrow> store \<Rightarrow> (error + CartItems) \<times> store" where
  "GetCartItem cartID productID st =
     (case db_call OpGetCartItem st of
        (True, st') \<Rightarrow> (Inl ErrStore, st')
      | (False, st') \<Rightarrow>
          (case find (live_item_of cartID productID) (cart_items st') of
             None \<Rightarrow> (Inl ErrRecordNotFound, st')
           | Some r \<Rightarrow> (Inr r, st')))"

text \<open>
  Modelled from the spec: \<^verbatim>\<open>repository.CreateCartItem\<close>. The handler passes a row
  without identifier; the store assigns \<^verbatim>\<open>gen_random_uuid()\<close> and refuses a
  primary-key clash.
\<close>

definition CreateCartItem :: "CartItems \<Rightarrow> store \<Rightarrow> error option \<times> store" where
  "CreateCartItem item st =
     (case db_call OpCreateCartItem st of
        (True, st') \<Rightarrow> (Some ErrStore, st')
      | (False, st') \<Rightarrow>
          (case uuid_pool st' of
             [] \<Rightarrow> (Some ErrStore, st')
           | i # pool \<Rightarrow>
               if i \<in> set (map Item_ID (cart_items st'))
               then (Some ErrStore, st'\<lparr>uuid_pool := pool\<rparr>)
               else (None, st'\<lparr>uuid_pool := pool,
                       cart_items := cart_items st' @ [item\<lparr>Item_ID := i\<rparr>]\<rparr>)))"

text \<open>
  Modelled from the spec: \<^verbatim>\<open>repository.UpdateCartItem\<close> writes the given row over the
  row with its primary key.
\<close>

definition UpdateCartItem :: "CartItems \<Rightarrow> store \<Rightarrow> error option \<times> store" where
  "UpdateCartItem item st =
     (case db_call OpUpdateCartItem st of
        (True, st') \<Rightarrow> (Some ErrStore, st')
      | (False, st') \<Rightarrow>
          (None, st'\<lparr>cart_items :=
                   map (\<lambda>r. if Item_ID r = Item_ID item then item else r) (cart_items st')\<rparr>))"

text \<open>
  Modelled from the spec: \<^verbatim>\<open>repository.RemoveCartItemFrom\<close> deletes the rows of the
  (cart, product) pair; deleting a row that does not exist is not an error.
\<close>

definition RemoveCartItemFrom :: "uuid \<Rightarrow> uuid \<Rightarrow> store \<Rightarrow> error option \<times> store" where
  "RemoveCartItemFrom cartID productID st =
     (case db_call OpRemoveCartItemFrom st of
        (True, st') \<Rightarrow> (Some ErrStore, st')
      | (False, st') \<Rightarrow>
          (None, st'\<lparr>cart_items :=
                   filter (\<lambda>r. \<not> (Item_CartID r = cartID \<and> Item_ProductID r = productID))
                     (cart_items st')\<rparr>))"

text \<open>Modelled from the spec: \<^verbatim>\<open>repository.GetCartItems\<close>.\<close>

definition GetCartItems :: "uuid \<Rightarrow> store \<Rightarrow> (error + CartItems list) \<times> store" where
  "GetCartItems cartID st =
     (case db_call OpGetCartItems st of
        (True, st') \<Rightarrow> (Inl ErrStore, st')
      | (False, st') \<Rightarrow>
          (Inr (filter (\<lambda>r. Item_CartID r = cartID \<and> Item_DeletedAt r = None) (cart_items st')),
           st'))"

section \<open>The cache behind \<^verbatim>\<open>config.RDB\<close>\<close>

text \<open>
  A cached value is a byte string. What the handlers do with it depends only on whether
  \<^verbatim>\<open>json.Unmarshal\<close> into \<^verbatim>\<open>[]models.CartItems\<close> accepts it, so a byte string is
  represented by the list it decodes to, or by its text when it does not decode.
  \<^verbatim>\<open>json.Marshal\<close> of a list yields bytes that decode to that list.
\<close>

datatype payload = Decodable "CartItems list" | Undecodable string

definition json_Marshal :: "CartItems list \<Rightarrow> payload" where
  "json_Marshal xs = Decodable xs"

definition json_Unmarshal :: "payload \<Rightarrow> error + CartItems list" where
  "json_Unmarshal p = (case p of Decodable xs \<Rightarrow> Inr xs | Undecodable s \<Rightarrow> Inl ErrJSON)"

datatype cache_op = OpGet string | OpSet string | OpDel string

text \<open>
  An entry holds the value and the expiration it was set with, in seconds. \<open>rdb_faults\<close>
  scripts the failures of the cache client as \<open>db_faults\<close> does for the store, and
  \<open>rdb_log\<close> records the commands sent.
\<close>

record cache =
  entries :: "string \<rightharpoonup> payload \<times> nat"
  rdb_faults :: "bool list"
  rdb_log :: "cache_op list"

definition rdb_call :: "cache_op \<Rightarrow> cache \<Rightarrow> bool \<times> cache" where
  "rdb_call opn ch =
     (case rdb_faults ch of
        [] \<Rightarrow> (False, ch\<lparr>rdb_log := rdb_log ch @ [opn]\<rparr>)
      | f # fs \<Rightarrow> (f, ch\<lparr>rdb_faults := fs, rdb_log := rdb_log ch @ [opn]\<rparr>))"

definition RDB_Get :: "string \<Rightarrow> cache \<Rightarrow> (error + payload) \<times> cache" where
  "RDB_Get key ch =
     (case rdb_call (OpGet key) ch of
        (True, ch') \<Rightarrow> (Inl ErrRedis, ch')
      | (False, ch') \<Rightarrow>
          (case entries ch' key of
             None \<Rightarrow> (Inl RedisNil, ch')
           | Some (v, ttl) \<Rightarrow> (Inr v, ch')))"

definition RDB_Set :: "string \<Rightarrow> payload \<Rightarrow> nat \<Rightarrow> cache \<Rightarrow> error option \<times> cache" where
  "RDB_Set key v ttl ch =
     (case rdb_call (OpSet key) ch of
        (True, ch') \<Rightarrow> (Some ErrRedis, ch')
      | (False, ch') \<Rightarrow> (None, ch'\<lparr>entries := (entries ch')(key \<mapsto> (v, ttl))\<rparr>))"

definition RDB_Del :: "string \<Rightarrow> cache \<Rightarrow> error option \<times> cache" where
  "RDB_Del key ch =
     (case rdb_call (OpDel key) ch of
        (True, ch') \<Rightarrow> (Some ErrRedis, ch')
      | (False, ch') \<Rightarrow> (None, ch'\<lparr>entries := (entries ch')(key := None)\<rparr>))"

section \<open>Requests, responses and results\<close>

text \<open>
  The value \<^verbatim>\<open>c.Get("userId")\<close> finds in the request context, classified by what the
  handlers do with it: absent, present but not a string (the assertion \<^verbatim>\<open>val.(string)\<close>
  panics), a string \<^verbatim>\<open>uuid.Parse\<close> rejects, or a string it parses.
\<close>

datatype identity = Missing | NotAString | Unparsable | Parsed uuid

datatype data = Null | CartData Cart | ItemsData "CartItems list"

text \<open>
  Modelled from the spec: package \<^verbatim>\<open>utils\<close> is not among the sources. Section 6:
  success responses carry a status code, a human-readable message and a data payload;
  failure responses carry a status code, a message and an optional error detail.
  \<open>GinJSON\<close> is a direct \<^verbatim>\<open>c.JSON(status, gin.H{key: err})\<close>.
\<close>

datatype response =
    Success nat string data
  | Failure nat string "error option"
  | GinJSON nat string error

record world =
  DB :: store
  RDB :: cache

record result =
  written :: "response list"
  panicked :: "go_panic option"
  after :: world

definition respond :: "response list \<Rightarrow> world \<Rightarrow> result" where
  "respond rs w = \<lparr>written = rs, panicked = None, after = w\<rparr>"

definition crash :: "response list \<Rightarrow> go_panic \<Rightarrow> world \<Rightarrow> result" where
  "crash rs p w = \<lparr>written = rs, panicked = Some p, after = w\<rparr>"

definition StatusOK :: nat where "StatusOK = 200"
definition StatusCreated :: nat where "StatusCreated = 201"
definition StatusBadRequest :: nat where "StatusBadRequest = 400"
definition StatusUnauthorized :: nat where "StatusUnauthorized = 401"
definition StatusInternalServerError :: nat where "StatusInternalServerError = 500"

definition cacheKey_of :: "uuid \<Rightarrow> string" where
  "cacheKey_of u = ''cart:'' @ uuid_String u"

text \<open>\<^verbatim>\<open>24*time.Hour\<close>, in seconds.\<close>

definition cache_ttl :: nat where
  "cache_ttl = 24 * 3600"

text \<open>
  \<^verbatim>\<open>c.ShouldBindJSON(&req)\<close>: the body either does not decode (\<open>None\<close>) or decodes to
  a request, which the binding tags then validate: \<^verbatim>\<open>required\<close> refuses the zero
  value, \<^verbatim>\<open>min=1\<close> a quantity below one.
\<close>

definition ShouldBindJSON :: "AddCartItemRequest option \<Rightarrow> error + AddCartItemRequest" where
  "ShouldBindJSON body =
     (case body of
        None \<Rightarrow> Inl ErrBind
      | Some req \<Rightarrow>
          if Req_ProductID req = uuid_Nil \<or> Req_Quantity req <s 1 then Inl ErrBind
          else Inr req)"

section \<open>The handlers\<close>

subsection \<open>CreateCart\<close>

definition CreateCart :: "identity \<Rightarrow> world \<Rightarrow> result" where
  "CreateCart ident w =
     (case ident of
        Missing \<Rightarrow> respond [Failure StatusUnauthorized ''Unauthorized'' None] w
      | NotAString \<Rightarrow> crash [] TypeAssertionFailed w
      | Unparsable \<Rightarrow> respond [GinJSON StatusBadRequest ''invalid userid'' ErrUUID] w
      | Parsed userId \<Rightarrow>
          (case GetCartByUserId userId (DB w) of
             ((cart, err), st1) \<Rightarrow>
               (case (err, cart) of
                  (None, Some c) \<Rightarrow>
                    \<comment> \<open>cart already exists\<close>
                    respond [Success StatusOK ''Cart already exists'' (CartData c)] (w\<lparr>DB := st1\<rparr>)
                | _ \<Rightarrow>
                    if err \<noteq> None \<and> err \<noteq> Some ErrRecordNotFound
                    then \<comment> \<open>real DB error (not record not found)\<close>
                      respond [Failure StatusInternalServerError ''Failed to fetch cart'' None]
                        (w\<lparr>DB := st1\<rparr>)
                    else \<comment> \<open>create cart\<close>
                      (case repository_CreateCart userId st1 of
                         (Some err', st2) \<Rightarrow>
                           respond [Failure StatusInternalServerError ''Failed to create cart'' None]
                             (w\<lparr>DB := st2\<rparr>)
                       | (None, st2) \<Rightarrow>
                           respond [Success StatusCreated ''Cart created'' Null]
                             (w\<lparr>DB := st2\<rparr>)))))"

subsection \<open>AddOrUpdateCartItem\<close>

text \<open>
  The end of the handler, lines 167 to 172: the cache entry of the cart is deleted, a
  failure of the cache is printed and ignored, and the handler returns without writing a
  response.
\<close>

definition clear_cart_cache :: "Cart \<Rightarrow> store \<Rightarrow> world \<Rightarrow> result" where
  "clear_cart_cache cart st w =
     (let cacheKey = cacheKey_of (Cart_ID cart)
      in case RDB_Del cacheKey (RDB w) of
           (err, ch) \<Rightarrow> respond [] \<lparr>DB = st, RDB = ch\<rparr>)"

text \<open>
  Lines 128 to 172: the handler from the product lookup on. \<open>cart\<close> is the pointer the
  cart lookup left; \<^verbatim>\<open>cart.ID\<close> on line 133 is its first use.
\<close>

definition add_to_cart :: "AddCartItemRequest \<Rightarrow> Cart option \<Rightarrow> store \<Rightarrow> world \<Rightarrow> result" where
  "add_to_cart req cart st w =
     (case GetProductByUUID (Req_ProductID req) st of
        (Inl err, st4) \<Rightarrow>
          respond [Failure StatusBadRequest ''Product does not exist'' None] (w\<lparr>DB := st4\<rparr>)
      | (Inr product, st4) \<Rightarrow>
          (case cart of
             None \<Rightarrow> crash [] NilPointerDereference (w\<lparr>DB := st4\<rparr>)
           | Some c \<Rightarrow>
               (case GetCartItem (Cart_ID c) (Req_ProductID req) st4 of
                  (Inr cartItem, st5) \<Rightarrow>
                    \<comment> \<open>Update quantity\<close>
                    (let currentQtyInCart = Item_Quantity cartItem;
                         cartItem' = cartItem\<lparr>Item_Quantity :=
                                                Item_Quantity cartItem + Req_Quantity req\<rparr>
                     in if Product_NumberOfStock product <s Req_Quantity req + currentQtyInCart
                        then respond [Failure StatusBadRequest ''Product out of stock'' None]
                               (w\<lparr>DB := st5\<rparr>)
                        else (case UpdateCartItem cartItem' st5 of
                                (Some err, st6) \<Rightarrow>
                                  respond [Failure StatusInternalServerError
                                             ''Failed to update cart item'' (Some err)]
                                    (w\<lparr>DB := st6\<rparr>)
                              | (None, st6) \<Rightarrow> clear_cart_cache c st6 w))
                | (Inl err, st5) \<Rightarrow>
                    if err = ErrRecordNotFound
                    then \<comment> \<open>Add new cart item\<close>
                      (let currentQtyInCart = (0 :: go_int)
                       in if Product_NumberOfStock product <s currentQtyInCart + Req_Quantity req
                          then respond [Failure StatusBadRequest ''Product out of stock'' None]
                                 (w\<lparr>DB := st5\<rparr>)
                          else (case CreateCartItem
                                       \<lparr>Item_ID = uuid_Nil, Item_CartID = Cart_ID c,
                                        Item_ProductID = Req_ProductID req,
                                        Item_Quantity = Req_Quantity req,
                                        Item_DeletedAt = None\<rparr> st5 of
                                  (Some err', st6) \<Rightarrow>
                                    respond [Failure StatusInternalServerError
                                               ''Failed to add cart item'' (Some err')]
                                      (w\<lparr>DB := st6\<rparr>)
                                | (None, st6) \<Rightarrow> clear_cart_cache c st6 w))
                    else respond [Failure StatusInternalServerError
                                    ''Failed to fetch cart item'' (Some err)] (w\<lparr>DB := st5\<rparr>))))"

definition AddOrUpdateCartItem :: "AddCartItemRequest option \<Rightarrow> identity \<Rightarrow> world \<Rightarrow> result" where
  "AddOrUpdateCartItem body ident w =
     (case ShouldBindJSON body of
        Inl err \<Rightarrow> respond [Failure StatusBadRequest ''Invalid request body'' (Some err)] w
      | Inr req \<Rightarrow>
          (case ident of
             Missing \<Rightarrow> respond [Failure StatusUnauthorized ''Unauthorized'' None] w
           | NotAString \<Rightarrow> crash [] TypeAssertionFailed w
           | Unparsable \<Rightarrow> respond [GinJSON StatusBadRequest ''error'' ErrUUID] w
           | Parsed userId \<Rightarrow>
               (case GetCartByUserId userId (DB w) of
                  ((cart, None), st1) \<Rightarrow> add_to_cart req cart st1 w
                | ((cart, Some err), st1) \<Rightarrow>
                    if err = ErrRecordNotFound
                    then (case repository_CreateCart userId st1 of
                            (Some err', st2) \<Rightarrow>
                              respond [Failure StatusInternalServerError
                                         ''Failed to create cart'' (Some err')] (w\<lparr>DB := st2\<rparr>)
                          | (None, st2) \<Rightarrow>
                              \<comment> \<open>fetch newly created cart\<close>
                              (case GetCartByUserId userId st2 of
                                 ((cart', Some err'), st3) \<Rightarrow>
                                   respond [Failure StatusInternalServerError
                                              ''Failed to fetch cart'' (Some err')] (w\<lparr>DB := st3\<rparr>)
                               | ((cart', None), st3) \<Rightarrow> add_to_cart req cart' st3 w))
                    else \<comment> \<open>real internal error\<close>
                      respond [Failure StatusInternalServerError ''Internal server error'' None]
                        (w\<lparr>DB := st1\<rparr>))))"

subsection \<open>GetAllCartItems\<close>

text \<open>
  Lines 209 to 244: the handler from the cache key on. \<open>pre\<close> is what has been written
  to the response so far, \<open>cart\<close> the pointer the cart lookup left; building the cache
  key reads \<^verbatim>\<open>cart.ID\<close>.
\<close>

definition list_cart_items :: "response list \<Rightarrow> Cart option \<Rightarrow> world \<Rightarrow> result" where
  "list_cart_items pre cart w =
     (case cart of
        None \<Rightarrow> crash pre NilPointerDereference w
      | Some c \<Rightarrow>
         (let cacheKey = cacheKey_of (Cart_ID c)
          in case RDB_Get cacheKey (RDB w) of
               (Inl err, ch1) \<Rightarrow>
                 if err = RedisNil
                 then (case GetCartItems (Cart_ID c) (DB w) of
                         (Inl err', st2) \<Rightarrow>
                           respond (pre @ [Failure StatusUnauthorized ''Failed to fetch'' (Some err')])
                             \<lparr>DB = st2, RDB = ch1\<rparr>
                       | (Inr cartItems, st2) \<Rightarrow>
                           \<comment> \<open>Serialize data to JSON to store in Redis\<close>
                           (let jsonData = json_Marshal cartItems
                            in case RDB_Set cacheKey jsonData cache_ttl ch1 of
                                 (err', ch2) \<Rightarrow>
                                   respond (pre @ [Success StatusOK ''data fetch successfully''
                                                     (ItemsData cartItems)])
                                     \<lparr>DB = st2, RDB = ch2\<rparr>))
                 else (case GetCartItems (Cart_ID c) (DB w) of \<comment> \<open>Fallback\<close>
                         (Inl err', st2) \<Rightarrow>
                           respond (pre @ [Failure StatusUnauthorized ''Failed to fetch'' (Some err')])
                             \<lparr>DB = st2, RDB = ch1\<rparr>
                       | (Inr cartItems, st2) \<Rightarrow>
                           respond (pre @ [Success StatusOK ''data fetched from DB (Redis down)''
                                             (ItemsData cartItems)])
                             \<lparr>DB = st2, RDB = ch1\<rparr>)
             | (Inr cachedData, ch1) \<Rightarrow>
                 (case json_Unmarshal cachedData of
                    Inl err' \<Rightarrow>
                      respond (pre @ [Failure StatusInternalServerError ''Failed to parse cache''
                                        (Some err')])
                        (w\<lparr>RDB := ch1\<rparr>)
                  | Inr cartItems \<Rightarrow>
                      respond (pre @ [Success StatusOK ''data fetched from Redis''
                                        (ItemsData cartItems)])
                        (w\<lparr>RDB := ch1\<rparr>))))"

text \<open>
  Lines 186 to 209. Of the two branches under \<^verbatim>\<open>if err != nil\<close> only the
  record-not-found one returns; the other writes its response and control goes on to
  line 209.
\<close>

definition GetAllCartItems :: "identity \<Rightarrow> world \<Rightarrow> result" where
  "GetAllCartItems ident w =
     (case ident of
        Missing \<Rightarrow> respond [Failure StatusUnauthorized ''Unauthorized'' None] w
      | NotAString \<Rightarrow> crash [] TypeAssertionFailed w
      | Unparsable \<Rightarrow> respond [GinJSON StatusBadRequest ''error'' ErrUUID] w
      | Parsed userId \<Rightarrow>
          (case GetCartByUserId userId (DB w) of
             ((cart, err), st1) \<Rightarrow>
               if err = Some ErrRecordNotFound
               then respond [Failure StatusInternalServerError ''Cart does not exist'' err]
                      (w\<lparr>DB := st1\<rparr>)
               else (let pre = (if err \<noteq> None
                                then [Failure StatusInternalServerError ''Failed to fetch cart'' err]
                                else [])
                     in list_cart_items pre cart (w\<lparr>DB := st1\<rparr>))))"

subsection \<open>GetCart and DeleteCart\<close>

text \<open>Both bodies are empty: nothing is read, written or answered.\<close>

definition GetCart :: "string \<Rightarrow> world \<Rightarrow> result" where
  "GetCart userIdParam w = respond [] w"

definition DeleteCart :: "string \<Rightarrow> world \<Rightarrow> result" where
  "DeleteCart userIdParam w = respond [] w"

subsection \<open>RemoveCartItemFromCart\<close>

text \<open>
  \<open>productIDParam\<close> is \<^verbatim>\<open>uuid.Parse(c.Param("product_id"))\<close>, \<open>None\<close> when the
  parameter does not parse. The result of \<^verbatim>\<open>config.RDB.Del\<close> is dropped.
\<close>

definition RemoveCartItemFromCart :: "identity \<Rightarrow> uuid option \<Rightarrow> world \<Rightarrow> result" where
  "RemoveCartItemFromCart ident productIDParam w =
     (case ident of
        Missing \<Rightarrow> respond [Failure StatusUnauthorized ''Unauthorized'' None] w
      | NotAString \<Rightarrow> crash [] TypeAssertionFailed w
      | Unparsable \<Rightarrow> respond [GinJSON StatusBadRequest ''error'' ErrUUID] w
      | Parsed userId \<Rightarrow>
          (case GetCartByUserId userId (DB w) of
             ((cart, Some err), st1) \<Rightarrow>
               respond [Failure StatusInternalServerError ''Failed to fetch cart'' (Some err)]
                 (w\<lparr>DB := st1\<rparr>)
           | ((cart, None), st1) \<Rightarrow>
               (case productIDParam of
                  None \<Rightarrow>
                    respond [Failure StatusBadRequest ''Invalid product ID'' (Some ErrUUID)]
                      (w\<lparr>DB := st1\<rparr>)
                | Some productID \<Rightarrow>
                    (case cart of
                       None \<Rightarrow> crash [] NilPointerDereference (w\<lparr>DB := st1\<rparr>)
                     | Some c \<Rightarrow>
                         (case RemoveCartItemFrom (Cart_ID c) productID st1 of
                            (Some err, st2) \<Rightarrow>
                              respond [Failure StatusInternalServerError
                                         ''Failed to remove cart item'' (Some err)]
                                (w\<lparr>DB := st2\<rparr>)
                          | (None, st2) \<Rightarrow>
                              (let cacheKey = cacheKey_of userId
                               in case RDB_Del cacheKey (RDB w) of
                                    (err, ch) \<Rightarrow> respond [] \<lparr>DB = st2, RDB = ch\<rparr>))))))"

section \<open>Notions used by the properties\<close>

text \<open>The live carts of a user, in table order.\<close>

definition live_carts :: "uuid \<Rightarrow> store \<Rightarrow> Cart list" where
  "live_carts u st = filter (live_cart_of u) (carts st)"

text \<open>Whether the fault script makes the next call to the store fail.\<close>

definition next_db_call_fails :: "store \<Rightarrow> bool" where
  "next_db_call_fails st = (case db_faults st of [] \<Rightarrow> False | f # fs \<Rightarrow> f)"

text \<open>An add-item request of user \<open>u\<close> for quantity \<open>q\<close> of product \<open>pid\<close>.\<close>

definition add_item :: "uuid \<Rightarrow> uuid \<Rightarrow> go_int \<Rightarrow> world \<Rightarrow> result" where
  "add_item u pid q w =
     AddOrUpdateCartItem (Some \<lparr>Req_ProductID = pid, Req_Quantity = q\<rparr>) (Parsed u) w"

subsection \<open>A small shop\<close>

text \<open>
  Concrete data for the examples: one user, the user's cart, one product with five
  pieces in stock, and the cart-item row of that product in that cart.
\<close>

definition demo_user :: uuid where
  "demo_user = ''a1a1a1a1-0000-4000-8000-000000000001''"

definition demo_cart_id :: uuid where
  "demo_cart_id = ''c2c2c2c2-0000-4000-8000-000000000002''"

definition demo_product :: uuid where
  "demo_product = ''d3d3d3d3-0000-4000-8000-000000000003''"

definition demo_item_id :: uuid where
  "demo_item_id = ''e4e4e4e4-0000-4000-8000-000000000004''"

definition demo_cart :: Cart where
  "demo_cart = \<lparr>Cart_ID = demo_cart_id, Cart_UserID = demo_user, Cart_DeletedAt = None\<rparr>"

definition demo_item :: "go_int \<Rightarrow> CartItems" where
  "demo_item q = \<lparr>Item_ID = demo_item_id, Item_CartID = demo_cart_id,
                   Item_ProductID = demo_product, Item_Quantity = q, Item_DeletedAt = None\<rparr>"

definition demo_store :: "Cart list \<Rightarrow> CartItems list \<Rightarrow> uuid list \<Rightarrow> bool list \<Rightarrow> store" where
  "demo_store cs items pool faults =
     \<lparr>carts = cs, cart_items = items,
      products = [\<lparr>Product_ID = demo_product, Product_NumberOfStock = 5\<rparr>],
      db_faults = faults, uuid_pool = pool, db_log = []\<rparr>"

definition demo_cache :: "(string \<rightharpoonup> payload \<times> nat) \<Rightarrow> bool list \<Rightarrow> cache" where
  "demo_cache es faults = \<lparr>entries = es, rdb_faults = faults, rdb_log = []\<rparr>"

section \<open>Facts about the store and the cache\<close>

lemmas status_defs =
  StatusOK_def StatusCreated_def StatusBadRequest_def StatusUnauthorized_def
  StatusInternalServerError_def

lemmas store_defs =
  db_call_def GetCartByUserId_def repository_CreateCart_def GetProductByUUID_def
  GetCartItem_def CreateCartItem_def UpdateCartItem_def RemoveCartItemFrom_def GetCartItems_def
  live_cart_of_def live_item_of_def

lemmas cache_defs =
  rdb_call_def RDB_Get_def RDB_Set_def RDB_Del_def json_Marshal_def json_Unmarshal_def
  cacheKey_of_def uuid_String_def cache_ttl_def

lemmas handler_defs =
  CreateCart_def AddOrUpdateCartItem_def add_to_cart_def clear_cart_cache_def
  GetAllCartItems_def list_cart_items_def RemoveCartItemFromCart_def GetCart_def DeleteCart_def
  ShouldBindJSON_def respond_def crash_def add_item_def uuid_Nil_def

lemmas demo_defs =
  demo_user_def demo_cart_id_def demo_product_def demo_item_id_def demo_cart_def demo_item_def
  demo_store_def demo_cache_def

lemma db_call_nofault:
  "db_faults st = [] \<Longrightarrow> db_call opn st = (False, st\<lparr>db_log := db_log st @ [opn]\<rparr>)"
  by (simp add: db_call_def)

lemma GetCartByUserId_cases:
  "GetCartByUserId u st = (r, st1) \<Longrightarrow>
     carts st1 = carts st \<and> cart_items st1 = cart_items st \<and> products st1 = products st \<and>
     db_log st1 = db_log st @ [OpGetCartByUserId] \<and>
     (r = (None, Some ErrStore) \<and> next_db_call_fails st \<or>
      r = (None, Some ErrRecordNotFound) \<and> find (live_cart_of u) (carts st) = None \<or>
      (\<exists>c. r = (Some c, None) \<and> find (live_cart_of u) (carts st) = Some c))"
  by (auto simp: GetCartByUserId_def db_call_def next_db_call_fails_def
      split: list.splits bool.splits option.splits)

lemma GetCartByUserId_found:
  assumes "\<not> next_db_call_fails st" and "find (live_cart_of u) (carts st) = Some c"
  shows "\<exists>st1. GetCartByUserId u st = ((Some c, None), st1)"
  using assms
  by (auto simp: GetCartByUserId_def db_call_def next_db_call_fails_def split: list.splits)

lemma repository_CreateCart_cases:
  "repository_CreateCart u st = (e, st2) \<Longrightarrow>
     cart_items st2 = cart_items st \<and> products st2 = products st \<and>
     (e \<noteq> None \<and> carts st2 = carts st \<or>
      e = None \<and>
        (\<exists>i. carts st2 = carts st @ [\<lparr>Cart_ID = i, Cart_UserID = u, Cart_DeletedAt = None\<rparr>]))"
  by (auto simp: repository_CreateCart_def db_call_def
      split: list.splits bool.splits option.splits if_splits)

lemma RDB_Get_frame:
  "RDB_Get k ch = (r, ch1) \<Longrightarrow>
     rdb_log ch1 = rdb_log ch @ [OpGet k] \<and> entries ch1 = entries ch"
  by (auto simp: RDB_Get_def rdb_call_def split: list.splits bool.splits option.splits)

lemma GetCartItems_frame:
  "GetCartItems cid st = (r, st2) \<Longrightarrow>
     db_log st2 = db_log st @ [OpGetCartItems] \<and> carts st2 = carts st \<and>
     cart_items st2 = cart_items st \<and> products st2 = products st"
  by (auto simp: GetCartItems_def db_call_def split: list.splits bool.splits)

lemma find_None_filter: "find P xs = None \<Longrightarrow> filter P xs = []"
  by (simp add: find_None_iff filter_empty_conv)

lemma find_append_new: "filter P xs = [] \<Longrightarrow> P x \<Longrightarrow> find P (xs @ [x]) = Some x"
  by (induction xs) (auto split: if_splits)

lemma map_replace_fresh:
  "i \<notin> set (map Item_ID xs) \<Longrightarrow> map (\<lambda>r. if Item_ID r = i then y else r) xs = xs"
  by (induction xs) auto

lemma sint_add_no_wrap:
  fixes a b s :: go_int
  assumes "0 < sint a" and "0 < sint b" and "sint a + sint b \<le> sint s"
  shows "sint (a + b) = sint a + sint b"
proof -
  have "sint s < 2 ^ 63" using sint_lt [of s] by simp
  with assms have "- (2 ^ 63) \<le> sint a + sint b" and "sint a + sint b < 2 ^ 63"
    by simp_all
  then show ?thesis
    by (simp add: sint_word_ariths signed_take_bit_int_eq_self)
qed

section \<open>Listing the items of a cart\<close>

text \<open>
  Claim C7. In the list-items operation, when the lookup of the user's cart fails with a
  store error other than record-not-found, the handler writes the internal-error
  response (status 500, "Failed to fetch cart") and does not stop: it goes on to build
  the cache key from the nil cart, which is a nil-pointer dereference. The cache has not
  been asked by then: the world after the call differs from the one before only in the
  store the lookup returned.
\<close>

theorem GetAllCartItems_store_error_falls_through:
  assumes "GetCartByUserId userId (DB w) = ((None, Some err), st1)"
    and "err \<noteq> ErrRecordNotFound"
  shows "GetAllCartItems (Parsed userId) w =
           \<lparr>written = [Failure 500 ''Failed to fetch cart'' (Some err)],
            panicked = Some NilPointerDereference,
            after = w\<lparr>DB := st1\<rparr>\<rparr>"
  using assms
  by (simp add: GetAllCartItems_def list_cart_items_def crash_def status_defs)

theorem GetAllCartItems_store_error_falls_through_witness:
  "GetCartByUserId demo_user
       (DB \<lparr>DB = demo_store [demo_cart] [demo_item 3] [] [True], RDB = demo_cache Map.empty []\<rparr>) =
     ((None, Some ErrStore),
      (demo_store [demo_cart] [demo_item 3] [] [])\<lparr>db_log := [OpGetCartByUserId]\<rparr>) \<and>
   ErrStore \<noteq> ErrRecordNotFound \<and>
   GetAllCartItems (Parsed demo_user)
       \<lparr>DB = demo_store [demo_cart] [demo_item 3] [] [True], RDB = demo_cache Map.empty []\<rparr> =
     \<lparr>written = [Failure 500 ''Failed to fetch cart'' (Some ErrStore)],
      panicked = Some NilPointerDereference,
      after = \<lparr>DB = (demo_store [demo_cart] [demo_item 3] [] [])\<lparr>db_log := [OpGetCartByUserId]\<rparr>,
               RDB = demo_cache Map.empty []\<rparr>\<rparr>"
proof -
  let ?w = "\<lparr>DB = demo_store [demo_cart] [demo_item 3] [] [True], RDB = demo_cache Map.empty []\<rparr>"
  let ?st1 = "(demo_store [demo_cart] [demo_item 3] [] [])\<lparr>db_log := [OpGetCartByUserId]\<rparr>"
  have h1: "GetCartByUserId demo_user (DB ?w) = ((None, Some ErrStore), ?st1)"
    by (simp add: GetCartByUserId_def db_call_def demo_store_def)
  have h2: "ErrStore \<noteq> ErrRecordNotFound" by simp
  from GetAllCartItems_store_error_falls_through [OF h1 h2] h1 show ?thesis by simp
qed

text \<open>
  Claim C8. A list-items read that gets a cache hit whose payload fails to deserialize
  reports an internal error (status 500, "Failed to parse cache"). It does not fall back
  to the Cart Store (the only store call of the request is the cart lookup) and does
  not treat the corrupted entry as a miss (the only cache command is the read; the
  entries of the cache stay as they were, so nothing is repopulated).
\<close>

theorem GetAllCartItems_corrupt_cache_entry:
  assumes "GetCartByUserId userId (DB w) = ((Some c, None), st1)"
    and "RDB_Get (cacheKey_of (Cart_ID c)) (RDB w) = (Inr cachedData, ch1)"
    and "json_Unmarshal cachedData = Inl e"
  shows "GetAllCartItems (Parsed userId) w =
           \<lparr>written = [Failure 500 ''Failed to parse cache'' (Some e)],
            panicked = None,
            after = \<lparr>DB = st1, RDB = ch1\<rparr>\<rparr> \<and>
         db_log st1 = db_log (DB w) @ [OpGetCartByUserId] \<and>
         rdb_log ch1 = rdb_log (RDB w) @ [OpGet (cacheKey_of (Cart_ID c))] \<and>
         entries ch1 = entries (RDB w)"
  using assms GetCartByUserId_cases [OF assms(1)] RDB_Get_frame [OF assms(2)]
  by (simp add: GetAllCartItems_def list_cart_items_def respond_def status_defs)

theorem GetAllCartItems_corrupt_cache_entry_witness:
  "GetCartByUserId demo_user
       (DB \<lparr>DB = demo_store [demo_cart] [demo_item 3] [] [],
            RDB = demo_cache [cacheKey_of demo_cart_id \<mapsto> (Undecodable ''{'', 60)] []\<rparr>) =
     ((Some demo_cart, None),
      (demo_store [demo_cart] [demo_item 3] [] [])\<lparr>db_log := [OpGetCartByUserId]\<rparr>) \<and>
   json_Unmarshal (Undecodable ''{'') = Inl ErrJSON \<and>
   written (GetAllCartItems (Parsed demo_user)
       \<lparr>DB = demo_store [demo_cart] [demo_item 3] [] [],
        RDB = demo_cache [cacheKey_of demo_cart_id \<mapsto> (Undecodable ''{'', 60)] []\<rparr>) =
     [Failure 500 ''Failed to parse cache'' (Some ErrJSON)] \<and>
   db_log (DB (after (GetAllCartItems (Parsed demo_user)
       \<lparr>DB = demo_store [demo_cart] [demo_item 3] [] [],
        RDB = demo_cache [cacheKey_of demo_cart_id \<mapsto> (Undecodable ''{'', 60)] []\<rparr>))) =
     [OpGetCartByUserId]"
proof -
  let ?ch = "demo_cache [cacheKey_of demo_cart_id \<mapsto> (Undecodable ''{'', 60)] []"
  let ?w = "\<lparr>DB = demo_store [demo_cart] [demo_item 3] [] [], RDB = ?ch\<rparr>"
  let ?st1 = "(demo_store [demo_cart] [demo_item 3] [] [])\<lparr>db_log := [OpGetCartByUserId]\<rparr>"
  have h1: "GetCartByUserId demo_user (DB ?w) = ((Some demo_cart, None), ?st1)"
    by (simp add: GetCartByUserId_def db_call_def demo_store_def demo_cart_def live_cart_of_def)
  have h2: "RDB_Get (cacheKey_of (Cart_ID demo_cart)) (RDB ?w) =
              (Inr (Undecodable ''{''), ?ch\<lparr>rdb_log := [OpGet (cacheKey_of demo_cart_id)]\<rparr>)"
    by (simp add: RDB_Get_def rdb_call_def demo_cache_def demo_cart_def)
  have h3: "json_Unmarshal (Undecodable ''{'') = Inl ErrJSON"
    by (simp add: json_Unmarshal_def)
  from GetAllCartItems_corrupt_cache_entry [OF h1 h2 h3] h1 h3 show ?thesis
    by (simp add: demo_store_def demo_cache_def demo_cart_def)
qed

text \<open>
  Claim C9. A list-items read where the cache returns an error distinct from a clean
  miss succeeds whenever the load from the Cart Store succeeds: the items are loaded
  from the store and returned in a success response (status 200) tagged
  "data fetched from DB (Redis down)", and no attempt is made to repopulate the cache
  (the read is the only cache command of the request, and the entries are untouched).
\<close>

theorem GetAllCartItems_cache_error_falls_back:
  assumes "GetCartByUserId userId (DB w) = ((Some c, None), st1)"
    and "RDB_Get (cacheKey_of (Cart_ID c)) (RDB w) = (Inl e, ch1)"
    and "e \<noteq> RedisNil"
    and "GetCartItems (Cart_ID c) st1 = (Inr cartItems, st2)"
  shows "GetAllCartItems (Parsed userId) w =
           \<lparr>written = [Success 200 ''data fetched from DB (Redis down)'' (ItemsData cartItems)],
            panicked = None,
            after = \<lparr>DB = st2, RDB = ch1\<rparr>\<rparr> \<and>
         rdb_log ch1 = rdb_log (RDB w) @ [OpGet (cacheKey_of (Cart_ID c))] \<and>
         entries ch1 = entries (RDB w) \<and>
         db_log st2 = db_log (DB w) @ [OpGetCartByUserId, OpGetCartItems]"
  using assms GetCartByUserId_cases [OF assms(1)] RDB_Get_frame [OF assms(2)]
    GetCartItems_frame [OF assms(4)]
  by (simp add: GetAllCartItems_def list_cart_items_def respond_def status_defs)

theorem GetAllCartItems_cache_error_falls_back_witness:
  "RDB_Get (cacheKey_of (Cart_ID demo_cart)) (demo_cache Map.empty [True]) =
     (Inl ErrRedis, (demo_cache Map.empty [])\<lparr>rdb_log := [OpGet (cacheKey_of demo_cart_id)]\<rparr>) \<and>
   ErrRedis \<noteq> RedisNil \<and>
   GetAllCartItems (Parsed demo_user)
       \<lparr>DB = demo_store [demo_cart] [demo_item 3] [] [], RDB = demo_cache Map.empty [True]\<rparr> =
     \<lparr>written = [Success 200 ''data fetched from DB (Redis down)'' (ItemsData [demo_item 3])],
      panicked = None,
      after = \<lparr>DB = (demo_store [demo_cart] [demo_item 3] [] [])
                      \<lparr>db_log := [OpGetCartByUserId, OpGetCartItems]\<rparr>,
               RDB = (demo_cache Map.empty [])
                      \<lparr>rdb_log := [OpGet (cacheKey_of demo_cart_id)]\<rparr>\<rparr>\<rparr>"
proof -
  let ?w = "\<lparr>DB = demo_store [demo_cart] [demo_item 3] [] [], RDB = demo_cache Map.empty [True]\<rparr>"
  let ?st1 = "(demo_store [demo_cart] [demo_item 3] [] [])\<lparr>db_log := [OpGetCartByUserId]\<rparr>"
  let ?st2 = "(demo_store [demo_cart] [demo_item 3] [] [])
                \<lparr>db_log := [OpGetCartByUserId, OpGetCartItems]\<rparr>"
  let ?ch1 = "(demo_cache Map.empty [])\<lparr>rdb_log := [OpGet (cacheKey_of demo_cart_id)]\<rparr>"
  have h1: "GetCartByUserId demo_user (DB ?w) = ((Some demo_cart, None), ?st1)"
    by (simp add: GetCartByUserId_def db_call_def demo_store_def demo_cart_def live_cart_of_def)
  have h2: "RDB_Get (cacheKey_of (Cart_ID demo_cart)) (RDB ?w) = (Inl ErrRedis, ?ch1)"
    by (simp add: RDB_Get_def rdb_call_def demo_cache_def demo_cart_def)
  have h3: "ErrRedis \<noteq> RedisNil" by simp
  have h4: "GetCartItems (Cart_ID demo_cart) ?st1 = (Inr [demo_item 3], ?st2)"
    by (simp add: GetCartItems_def db_call_def demo_store_def demo_cart_def demo_item_def)
  from GetAllCartItems_cache_error_falls_back [OF h1 h2 h3 h4] h2 show ?thesis by simp
qed

section \<open>Creating a cart\<close>

lemma CreateCart_exists:
  assumes "GetCartByUserId u (DB w) = ((Some c, None), st1)"
  shows "CreateCart (Parsed u) w =
           \<lparr>written = [Success 200 ''Cart already exists'' (CartData c)], panicked = None,
            after = w\<lparr>DB := st1\<rparr>\<rparr>"
  using assms by (simp add: CreateCart_def respond_def status_defs)

lemma CreateCart_created_only_if:
  assumes "Success 201 msg d \<in> set (written (CreateCart ident w))"
  shows "\<exists>u st1 st2 i. ident = Parsed u \<and>
           GetCartByUserId u (DB w) = ((None, Some ErrRecordNotFound), st1) \<and>
           live_carts u (DB w) = [] \<and>
           repository_CreateCart u st1 = (None, st2) \<and>
           after (CreateCart ident w) = w\<lparr>DB := st2\<rparr> \<and>
           carts st2 = carts (DB w) @ [\<lparr>Cart_ID = i, Cart_UserID = u, Cart_DeletedAt = None\<rparr>]"
proof (cases ident)
  case (Parsed u)
  obtain r st1 where g: "GetCartByUserId u (DB w) = (r, st1)"
    by (cases "GetCartByUserId u (DB w)")
  obtain e st2 where c: "repository_CreateCart u st1 = (e, st2)"
    by (cases "repository_CreateCart u st1")
  from GetCartByUserId_cases [OF g] repository_CreateCart_cases [OF c] assms Parsed g c
  show ?thesis
    by (auto simp: CreateCart_def respond_def status_defs live_carts_def find_None_filter
        split: option.splits if_splits)
qed (use assms in \<open>auto simp: CreateCart_def respond_def crash_def status_defs\<close>)

lemma CreateCart_invariant:
  assumes "length (live_carts v (DB w)) \<le> 1"
  shows "length (live_carts v (DB (after (CreateCart ident w)))) \<le> 1"
proof (cases ident)
  case (Parsed u)
  obtain r st1 where g: "GetCartByUserId u (DB w) = (r, st1)"
    by (cases "GetCartByUserId u (DB w)")
  obtain e st2 where c: "repository_CreateCart u st1 = (e, st2)"
    by (cases "repository_CreateCart u st1")
  from GetCartByUserId_cases [OF g] repository_CreateCart_cases [OF c] assms Parsed g c
  show ?thesis
    by (auto simp: CreateCart_def respond_def status_defs live_carts_def find_None_filter
        live_cart_of_def split: option.splits if_splits)
qed (use assms in \<open>auto simp: CreateCart_def respond_def crash_def status_defs\<close>)

lemma CreateCart_live_cart:
  assumes "find (live_cart_of u) (carts (DB w)) = Some c" and "\<not> next_db_call_fails (DB w)"
  shows "written (CreateCart (Parsed u) w) = [Success 200 ''Cart already exists'' (CartData c)] \<and>
         panicked (CreateCart (Parsed u) w) = None \<and>
         carts (DB (after (CreateCart (Parsed u) w))) = carts (DB w) \<and>
         db_log (DB (after (CreateCart (Parsed u) w))) = db_log (DB w) @ [OpGetCartByUserId]"
proof -
  from GetCartByUserId_found [OF assms(2) assms(1)]
  obtain st1 where g: "GetCartByUserId u (DB w) = ((Some c, None), st1)" by auto
  from CreateCart_exists [OF g] GetCartByUserId_cases [OF g] show ?thesis by simp
qed

lemma CreateCart_second_call:
  assumes "Success 201 msg d \<in> set (written (CreateCart (Parsed u) w))"
    and "\<not> next_db_call_fails (DB (after (CreateCart (Parsed u) w)))"
  shows "\<exists>c. Cart_UserID c = u \<and>
           written (CreateCart (Parsed u) (after (CreateCart (Parsed u) w))) =
             [Success 200 ''Cart already exists'' (CartData c)] \<and>
           carts (DB (after (CreateCart (Parsed u) (after (CreateCart (Parsed u) w))))) =
             carts (DB (after (CreateCart (Parsed u) w)))"
proof -
  from CreateCart_created_only_if [OF assms(1)]
  obtain st2 i where a: "after (CreateCart (Parsed u) w) = w\<lparr>DB := st2\<rparr>"
    and l: "live_carts u (DB w) = []"
    and c: "carts st2 = carts (DB w) @ [\<lparr>Cart_ID = i, Cart_UserID = u, Cart_DeletedAt = None\<rparr>]"
    by auto
  let ?c = "\<lparr>Cart_ID = i, Cart_UserID = u, Cart_DeletedAt = None\<rparr>"
  have f: "find (live_cart_of u) (carts (DB (w\<lparr>DB := st2\<rparr>))) = Some ?c"
    using l c by (simp add: find_append_new live_carts_def live_cart_of_def)
  from assms(2) a have nf: "\<not> next_db_call_fails (DB (w\<lparr>DB := st2\<rparr>))" by simp
  from CreateCart_live_cart [OF f nf] a show ?thesis
    by (intro exI [of _ ?c]) simp
qed

lemma CreateCart_creates:
  assumes "find (live_cart_of u) (carts (DB w)) = None"
    and "True \<notin> set (take 2 (db_faults (DB w)))"
    and "uuid_pool (DB w) = i # pool"
    and "i \<notin> set (map Cart_ID (carts (DB w)))"
    and "u \<notin> set (map Cart_UserID (carts (DB w)))"
  shows "CreateCart (Parsed u) w =
           \<lparr>written = [Success 201 ''Cart created'' Null], panicked = None,
            after = w\<lparr>DB := (DB w)\<lparr>db_faults := drop 2 (db_faults (DB w)),
                                    db_log := db_log (DB w) @ [OpGetCartByUserId, OpCreateCart],
                                    uuid_pool := pool,
                                    carts := carts (DB w) @
                                      [\<lparr>Cart_ID = i, Cart_UserID = u, Cart_DeletedAt = None\<rparr>]\<rparr>\<rparr>\<rparr>"
  using assms
  by (cases "db_faults (DB w)"; cases "tl (db_faults (DB w))")
    (auto simp: CreateCart_def GetCartByUserId_def repository_CreateCart_def db_call_def
      respond_def status_defs)

lemma CreateCart_changes_only_if:
  assumes "carts (DB (after (CreateCart ident w))) \<noteq> carts (DB w)"
  shows "\<exists>u st1 i. ident = Parsed u \<and>
           GetCartByUserId u (DB w) = ((None, Some ErrRecordNotFound), st1) \<and>
           written (CreateCart ident w) = [Success 201 ''Cart created'' Null] \<and>
           panicked (CreateCart ident w) = None \<and>
           carts (DB (after (CreateCart ident w))) =
             carts (DB w) @ [\<lparr>Cart_ID = i, Cart_UserID = u, Cart_DeletedAt = None\<rparr>]"
proof (cases ident)
  case (Parsed u)
  obtain r st1 where g: "GetCartByUserId u (DB w) = (r, st1)"
    by (cases "GetCartByUserId u (DB w)")
  obtain e st2 where c: "repository_CreateCart u st1 = (e, st2)"
    by (cases "repository_CreateCart u st1")
  from GetCartByUserId_cases [OF g] repository_CreateCart_cases [OF c] assms Parsed g c
  show ?thesis
    by (auto simp: CreateCart_def respond_def status_defs split: option.splits if_splits)
qed (use assms in \<open>auto simp: CreateCart_def respond_def crash_def status_defs\<close>)

lemma CreateCart_frame:
  "cart_items (DB (after (CreateCart ident w))) = cart_items (DB w) \<and>
   products (DB (after (CreateCart ident w))) = products (DB w) \<and>
   RDB (after (CreateCart ident w)) = RDB w"
proof (cases ident)
  case (Parsed u)
  obtain r st1 where g: "GetCartByUserId u (DB w) = (r, st1)"
    by (cases "GetCartByUserId u (DB w)")
  obtain e st2 where c: "repository_CreateCart u st1 = (e, st2)"
    by (cases "repository_CreateCart u st1")
  from GetCartByUserId_cases [OF g] repository_CreateCart_cases [OF c] Parsed g c
  show ?thesis
    by (auto simp: CreateCart_def respond_def status_defs split: option.splits if_splits)
qed (auto simp: CreateCart_def respond_def crash_def status_defs)

text \<open>
  Claim C4. CreateCart is idempotent and keeps at most one live cart per user:
  \<^item> if the user has a live cart (and the lookup does not fail), the call answers with
    status 200, "Cart already exists" and that cart, the table of carts is unchanged and
    the lookup is the only call to the store, so nothing is created;
  \<^item> a call answers 201 only if the lookup reported that the user has no cart; the new
    cart of the user is then the one row added;
  \<^item> after a call that answered 201, a second call for the same user (whose lookup does
    not fail) answers 200 "Cart already exists" with a cart of that user and adds nothing;
  \<^item> for every user, if there is at most one live cart before, there is at most one after
    one call and after two successive calls, whatever the store's failures;
  \<^item> if the user has no live cart and the store works (neither of the next two calls
    fails, the identifier it generates is new and no row, live or deleted, holds the
    unique slot of the user), the call answers 201 "Cart created" and the table of carts
    grows by exactly the new live cart of the user, after the lookup and one insert;
  \<^item> the table of carts changes only on that path: if it differs after a call, then the
    lookup reported that the user has no cart, the answer is 201 "Cart created", and the
    change is the one new cart of the user appended;
  \<^item> no call touches the cart items, the products or the cache.
\<close>

theorem CreateCart_idempotent:
  "(find (live_cart_of u) (carts (DB w)) = Some c \<and> \<not> next_db_call_fails (DB w) \<longrightarrow>
      written (CreateCart (Parsed u) w) = [Success 200 ''Cart already exists'' (CartData c)] \<and>
      panicked (CreateCart (Parsed u) w) = None \<and>
      carts (DB (after (CreateCart (Parsed u) w))) = carts (DB w) \<and>
      db_log (DB (after (CreateCart (Parsed u) w))) = db_log (DB w) @ [OpGetCartByUserId]) \<and>
   (Success 201 msg d \<in> set (written (CreateCart ident w')) \<longrightarrow>
      (\<exists>u' st1 i. ident = Parsed u' \<and>
         GetCartByUserId u' (DB w') = ((None, Some ErrRecordNotFound), st1) \<and>
         live_carts u' (DB w') = [] \<and>
         carts (DB (after (CreateCart ident w'))) =
           carts (DB w') @ [\<lparr>Cart_ID = i, Cart_UserID = u', Cart_DeletedAt = None\<rparr>])) \<and>
   (Success 201 msg d \<in> set (written (CreateCart (Parsed u2) w')) \<and>
    \<not> next_db_call_fails (DB (after (CreateCart (Parsed u2) w'))) \<longrightarrow>
      (\<exists>c2. Cart_UserID c2 = u2 \<and>
         written (CreateCart (Parsed u2) (after (CreateCart (Parsed u2) w'))) =
           [Success 200 ''Cart already exists'' (CartData c2)] \<and>
         carts (DB (after (CreateCart (Parsed u2) (after (CreateCart (Parsed u2) w'))))) =
           carts (DB (after (CreateCart (Parsed u2) w'))))) \<and>
   (length (live_carts v (DB w'')) \<le> 1 \<longrightarrow>
      length (live_carts v (DB (after (CreateCart i1 w'')))) \<le> 1 \<and>
      length (live_carts v (DB (after (CreateCart i2 (after (CreateCart i1 w'')))))) \<le> 1) \<and>
   (find (live_cart_of u3) (carts (DB w3)) = None \<and>
    True \<notin> set (take 2 (db_faults (DB w3))) \<and>
    uuid_pool (DB w3) = i3 # pool3 \<and>
    i3 \<notin> set (map Cart_ID (carts (DB w3))) \<and>
    u3 \<notin> set (map Cart_UserID (carts (DB w3))) \<longrightarrow>
      CreateCart (Parsed u3) w3 =
        \<lparr>written = [Success 201 ''Cart created'' Null], panicked = None,
         after = w3\<lparr>DB := (DB w3)\<lparr>db_faults := drop 2 (db_faults (DB w3)),
                                  db_log := db_log (DB w3) @ [OpGetCartByUserId, OpCreateCart],
                                  uuid_pool := pool3,
                                  carts := carts (DB w3) @
                                    [\<lparr>Cart_ID = i3, Cart_UserID = u3,
                                      Cart_DeletedAt = None\<rparr>]\<rparr>\<rparr>\<rparr>) \<and>
   (carts (DB (after (CreateCart ident w'))) \<noteq> carts (DB w') \<longrightarrow>
      (\<exists>u' st1 i. ident = Parsed u' \<and>
         GetCartByUserId u' (DB w') = ((None, Some ErrRecordNotFound), st1) \<and>
         written (CreateCart ident w') = [Success 201 ''Cart created'' Null] \<and>
         panicked (CreateCart ident w') = None \<and>
         carts (DB (after (CreateCart ident w'))) =
           carts (DB w') @ [\<lparr>Cart_ID = i, Cart_UserID = u', Cart_DeletedAt = None\<rparr>])) \<and>
   cart_items (DB (after (CreateCart ident w'))) = cart_items (DB w') \<and>
   products (DB (after (CreateCart ident w'))) = products (DB w') \<and>
   RDB (after (CreateCart ident w')) = RDB w'"
proof (intro conjI impI)
  assume "Success 201 msg d \<in> set (written (CreateCart ident w'))"
  from CreateCart_created_only_if [OF this]
  show "\<exists>u' st1 i. ident = Parsed u' \<and>
         GetCartByUserId u' (DB w') = ((None, Some ErrRecordNotFound), st1) \<and>
         live_carts u' (DB w') = [] \<and>
         carts (DB (after (CreateCart ident w'))) =
           carts (DB w') @ [\<lparr>Cart_ID = i, Cart_UserID = u', Cart_DeletedAt = None\<rparr>]"
    by force
next
  assume "Success 201 msg d \<in> set (written (CreateCart (Parsed u2) w')) \<and>
    \<not> next_db_call_fails (DB (after (CreateCart (Parsed u2) w')))"
  then show "\<exists>c2. Cart_UserID c2 = u2 \<and>
         written (CreateCart (Parsed u2) (after (CreateCart (Parsed u2) w'))) =
           [Success 200 ''Cart already exists'' (CartData c2)] \<and>
         carts (DB (after (CreateCart (Parsed u2) (after (CreateCart (Parsed u2) w'))))) =
           carts (DB (after (CreateCart (Parsed u2) w')))"
    using CreateCart_second_call by blast
next
  assume "find (live_cart_of u3) (carts (DB w3)) = None \<and>
    True \<notin> set (take 2 (db_faults (DB w3))) \<and>
    uuid_pool (DB w3) = i3 # pool3 \<and>
    i3 \<notin> set (map Cart_ID (carts (DB w3))) \<and>
    u3 \<notin> set (map Cart_UserID (carts (DB w3)))"
  then show "CreateCart (Parsed u3) w3 =
        \<lparr>written = [Success 201 ''Cart created'' Null], panicked = None,
         after = w3\<lparr>DB := (DB w3)\<lparr>db_faults := drop 2 (db_faults (DB w3)),
                                  db_log := db_log (DB w3) @ [OpGetCartByUserId, OpCreateCart],
                                  uuid_pool := pool3,
                                  carts := carts (DB w3) @
                                    [\<lparr>Cart_ID = i3, Cart_UserID = u3,
                                      Cart_DeletedAt = None\<rparr>]\<rparr>\<rparr>\<rparr>"
    using CreateCart_creates by blast
next
  assume "carts (DB (after (CreateCart ident w'))) \<noteq> carts (DB w')"
  from CreateCart_changes_only_if [OF this]
  show "\<exists>u' st1 i. ident = Parsed u' \<and>
         GetCartByUserId u' (DB w') = ((None, Some ErrRecordNotFound), st1) \<and>
         written (CreateCart ident w') = [Success 201 ''Cart created'' Null] \<and>
         panicked (CreateCart ident w') = None \<and>
         carts (DB (after (CreateCart ident w'))) =
           carts (DB w') @ [\<lparr>Cart_ID = i, Cart_UserID = u', Cart_DeletedAt = None\<rparr>]"
    by blast
qed (use CreateCart_live_cart CreateCart_invariant CreateCart_frame in \<open>blast+\<close>)

theorem CreateCart_idempotent_witness:
  "find (live_cart_of demo_user)
       (carts (DB \<lparr>DB = demo_store [demo_cart] [] [] [], RDB = demo_cache Map.empty []\<rparr>)) =
     Some demo_cart \<and>
   \<not> next_db_call_fails (DB \<lparr>DB = demo_store [demo_cart] [] [] [], RDB = demo_cache Map.empty []\<rparr>) \<and>
   written (CreateCart (Parsed demo_user)
       \<lparr>DB = demo_store [demo_cart] [] [] [], RDB = demo_cache Map.empty []\<rparr>) =
     [Success 200 ''Cart already exists'' (CartData demo_cart)] \<and>
   written (CreateCart (Parsed demo_user)
       \<lparr>DB = demo_store [] [] [demo_cart_id] [], RDB = demo_cache Map.empty []\<rparr>) =
     [Success 201 ''Cart created'' Null] \<and>
   live_carts demo_user
       (DB \<lparr>DB = demo_store [] [] [demo_cart_id] [], RDB = demo_cache Map.empty []\<rparr>) = [] \<and>
   carts (DB (after (CreateCart (Parsed demo_user)
       \<lparr>DB = demo_store [] [] [demo_cart_id] [], RDB = demo_cache Map.empty []\<rparr>))) =
     [demo_cart] \<and>
   written (CreateCart (Parsed demo_user) (after (CreateCart (Parsed demo_user)
       \<lparr>DB = demo_store [] [] [demo_cart_id] [], RDB = demo_cache Map.empty []\<rparr>))) =
     [Success 200 ''Cart already exists'' (CartData demo_cart)] \<and>
   length (live_carts demo_user (DB (after (CreateCart (Parsed demo_user)
     (after (CreateCart (Parsed demo_user)
       \<lparr>DB = demo_store [] [] [demo_cart_id] [], RDB = demo_cache Map.empty []\<rparr>)))))) \<le> 1 \<and>
   find (live_cart_of demo_user)
       (carts (DB \<lparr>DB = demo_store [] [] [demo_cart_id] [], RDB = demo_cache Map.empty []\<rparr>)) =
     None \<and>
   True \<notin> set (take 2 (db_faults
       (DB \<lparr>DB = demo_store [] [] [demo_cart_id] [], RDB = demo_cache Map.empty []\<rparr>))) \<and>
   CreateCart (Parsed demo_user)
       \<lparr>DB = demo_store [] [] [demo_cart_id] [], RDB = demo_cache Map.empty []\<rparr> =
     \<lparr>written = [Success 201 ''Cart created'' Null], panicked = None,
      after = \<lparr>DB = (demo_store [demo_cart] [] [] [])
                       \<lparr>db_log := [OpGetCartByUserId, OpCreateCart]\<rparr>,
               RDB = demo_cache Map.empty []\<rparr>\<rparr> \<and>
   carts (DB (after (CreateCart (Parsed demo_user)
       \<lparr>DB = demo_store [] [] [demo_cart_id] [], RDB = demo_cache Map.empty []\<rparr>))) \<noteq>
     carts (DB \<lparr>DB = demo_store [] [] [demo_cart_id] [], RDB = demo_cache Map.empty []\<rparr>) \<and>
   panicked (CreateCart (Parsed demo_user)
       \<lparr>DB = demo_store [] [] [demo_cart_id] [], RDB = demo_cache Map.empty []\<rparr>) = None"
proof -
  let ?wA = "\<lparr>DB = demo_store [demo_cart] [] [] [], RDB = demo_cache Map.empty []\<rparr>"
  let ?wB = "\<lparr>DB = demo_store [] [] [demo_cart_id] [], RDB = demo_cache Map.empty []\<rparr>"
  have a1: "find (live_cart_of demo_user) (carts (DB ?wA)) = Some demo_cart"
    by (simp add: demo_store_def demo_cart_def live_cart_of_def)
  have a2: "\<not> next_db_call_fails (DB ?wA)"
    by (simp add: next_db_call_fails_def demo_store_def)
  note T = CreateCart_idempotent [of demo_user ?wA demo_cart "''Cart created''" Null
      "Parsed demo_user" ?wB demo_user demo_user ?wB "Parsed demo_user" "Parsed demo_user"
      demo_user ?wB demo_cart_id "[]"]
  have e1: "find (live_cart_of demo_user) (carts (DB ?wB)) = None"
    by (simp add: demo_store_def)
  have e2: "True \<notin> set (take 2 (db_faults (DB ?wB)))"
    by (simp add: demo_store_def)
  have e3: "uuid_pool (DB ?wB) = demo_cart_id # []"
    by (simp add: demo_store_def)
  have e4: "demo_cart_id \<notin> set (map Cart_ID (carts (DB ?wB)))"
    by (simp add: demo_store_def)
  have e5: "demo_user \<notin> set (map Cart_UserID (carts (DB ?wB)))"
    by (simp add: demo_store_def)
  have st: "?wB\<lparr>DB := (DB ?wB)\<lparr>db_faults := drop 2 (db_faults (DB ?wB)),
                                   db_log := db_log (DB ?wB) @ [OpGetCartByUserId, OpCreateCart],
                                   uuid_pool := [],
                                   carts := carts (DB ?wB) @
                                     [\<lparr>Cart_ID = demo_cart_id, Cart_UserID = demo_user,
                                       Cart_DeletedAt = None\<rparr>]\<rparr>\<rparr> =
            \<lparr>DB = (demo_store [demo_cart] [] [] [])
                     \<lparr>db_log := [OpGetCartByUserId, OpCreateCart]\<rparr>,
             RDB = demo_cache Map.empty []\<rparr>"
    by (simp add: demo_store_def demo_cart_def)
  have b: "CreateCart (Parsed demo_user) ?wB =
             \<lparr>written = [Success 201 ''Cart created'' Null], panicked = None,
              after = \<lparr>DB = (demo_store [demo_cart] [] [] [])
                               \<lparr>db_log := [OpGetCartByUserId, OpCreateCart]\<rparr>,
                       RDB = demo_cache Map.empty []\<rparr>\<rparr>"
    using T e1 e2 e3 e4 e5 unfolding st by blast
  have b1: "Success 201 ''Cart created'' Null \<in> set (written (CreateCart (Parsed demo_user) ?wB))"
    by (simp add: b)
  have b2: "\<not> next_db_call_fails (DB (after (CreateCart (Parsed demo_user) ?wB)))"
    by (subst b) (simp add: next_db_call_fails_def demo_store_def)
  have b3: "written (CreateCart (Parsed demo_user) ?wB) = [Success 201 ''Cart created'' Null]"
    by (simp add: b)
  have b4: "carts (DB (after (CreateCart (Parsed demo_user) ?wB))) = [demo_cart]"
    by (subst b) (simp add: demo_store_def)
  have b5: "written (CreateCart (Parsed demo_user) (after (CreateCart (Parsed demo_user) ?wB))) =
              [Success 200 ''Cart already exists'' (CartData demo_cart)]"
    by (subst b)
      (simp add: CreateCart_def GetCartByUserId_def db_call_def respond_def status_defs
        demo_store_def demo_cart_def live_cart_of_def)
  have c: "length (live_carts demo_user (DB ?wB)) \<le> 1"
    by (simp add: live_carts_def demo_store_def)
  have p1: "written (CreateCart (Parsed demo_user) ?wA) =
              [Success 200 ''Cart already exists'' (CartData demo_cart)]"
    using T a1 a2 by blast
  have p3: "\<exists>c2. Cart_UserID c2 = demo_user \<and>
              written (CreateCart (Parsed demo_user) (after (CreateCart (Parsed demo_user) ?wB))) =
                [Success 200 ''Cart already exists'' (CartData c2)] \<and>
              carts (DB (after (CreateCart (Parsed demo_user)
                (after (CreateCart (Parsed demo_user) ?wB))))) =
                carts (DB (after (CreateCart (Parsed demo_user) ?wB)))"
    using T b1 b2 by blast
  have p4: "length (live_carts demo_user (DB (after (CreateCart (Parsed demo_user)
              (after (CreateCart (Parsed demo_user) ?wB)))))) \<le> 1"
    using T c by blast
  have p2: "\<exists>u' st1 i. Parsed demo_user = Parsed u' \<and>
              GetCartByUserId u' (DB ?wB) = ((None, Some ErrRecordNotFound), st1) \<and>
              live_carts u' (DB ?wB) = [] \<and>
              carts (DB (after (CreateCart (Parsed demo_user) ?wB))) =
                carts (DB ?wB) @ [\<lparr>Cart_ID = i, Cart_UserID = u', Cart_DeletedAt = None\<rparr>]"
    using T b1 by blast
  then have p2': "live_carts demo_user (DB ?wB) = []" by auto
  have d1: "carts (DB (after (CreateCart (Parsed demo_user) ?wB))) \<noteq> carts (DB ?wB)"
    by (subst b) (simp add: demo_store_def)
  have p6: "\<exists>u' st1 i. Parsed demo_user = Parsed u' \<and>
              GetCartByUserId u' (DB ?wB) = ((None, Some ErrRecordNotFound), st1) \<and>
              written (CreateCart (Parsed demo_user) ?wB) = [Success 201 ''Cart created'' Null] \<and>
              panicked (CreateCart (Parsed demo_user) ?wB) = None \<and>
              carts (DB (after (CreateCart (Parsed demo_user) ?wB))) =
                carts (DB ?wB) @ [\<lparr>Cart_ID = i, Cart_UserID = u', Cart_DeletedAt = None\<rparr>]"
    using T d1 by blast
  then have p6': "panicked (CreateCart (Parsed demo_user) ?wB) = None" by blast
  from a1 a2 p1 b3 p2' b4 b5 p3 p4 e1 e2 b d1 p6' show ?thesis by blast
qed

section \<open>Adding an item\<close>

text \<open>
  The handler from the product lookup on, when the product and a row of the pair are
  found: the request is refused exactly when the stock is below the wrapped 64-bit sum,
  and is otherwise handed to \<^verbatim>\<open>UpdateCartItem\<close> with that sum.
\<close>

lemma add_to_cart_existing_row:
  assumes "GetProductByUUID (Req_ProductID req) st = (Inr pr, st4)"
    and "GetCartItem (Cart_ID c) (Req_ProductID req) st4 = (Inr it, st5)"
  shows "add_to_cart req (Some c) st w =
           (if Product_NumberOfStock pr <s Req_Quantity req + Item_Quantity it
            then respond [Failure 400 ''Product out of stock'' None] (w\<lparr>DB := st5\<rparr>)
            else (case UpdateCartItem (it\<lparr>Item_Quantity := Item_Quantity it + Req_Quantity req\<rparr>) st5 of
                    (Some err, st6) \<Rightarrow>
                      respond [Failure 500 ''Failed to update cart item'' (Some err)] (w\<lparr>DB := st6\<rparr>)
                  | (None, st6) \<Rightarrow> clear_cart_cache c st6 w))"
  using assms by (simp add: add_to_cart_def status_defs Let_def split: prod.splits option.splits)

lemma GetCartItem_rows: "GetCartItem cid pid st = (r, st') \<Longrightarrow> cart_items st' = cart_items st"
  by (auto simp: GetCartItem_def db_call_def split: list.splits bool.splits option.splits)

text \<open>
  As long as the sum of the stored and the requested quantity fits into an \<^verbatim>\<open>int\<close>,
  a sum above the stock is refused with "Product out of stock" and the rows are left as
  they were.
\<close>

lemma add_to_cart_out_of_stock_in_range:
  assumes "GetProductByUUID (Req_ProductID req) st = (Inr pr, st4)"
    and "GetCartItem (Cart_ID c) (Req_ProductID req) st4 = (Inr it, st5)"
    and "sint (Product_NumberOfStock pr) < sint (Item_Quantity it) + sint (Req_Quantity req)"
    and "sint (Item_Quantity it) + sint (Req_Quantity req) < 2 ^ 63"
    and "- (2 ^ 63) \<le> sint (Item_Quantity it) + sint (Req_Quantity req)"
  shows "add_to_cart req (Some c) st w =
           respond [Failure 400 ''Product out of stock'' None] (w\<lparr>DB := st5\<rparr>) \<and>
         cart_items st5 = cart_items st4"
proof -
  have "sint (Req_Quantity req + Item_Quantity it) =
          sint (Item_Quantity it) + sint (Req_Quantity req)"
    using assms(4,5) by (simp add: sint_word_ariths signed_take_bit_int_eq_self add.commute)
  with assms(3) have "Product_NumberOfStock pr <s Req_Quantity req + Item_Quantity it"
    by (simp add: word_sless_alt)
  with add_to_cart_existing_row [OF assms(1,2)] GetCartItem_rows [OF assms(2)]
  show ?thesis by simp
qed

text \<open>
  Claim C3. Let user \<open>u\<close> have the live cart \<open>c\<close>, let product \<open>pid\<close> exist with
  stock \<open>s\<close>, let the cart hold no live row of the product, and let the store work (no
  scripted failure, and the identifier \<open>i\<close> it generates next is new). For positive
  quantities \<open>q1\<close>, \<open>q2\<close> with \<open>q1 + q2 \<le> s\<close>, add-item with \<open>q1\<close> followed by
  add-item with \<open>q2\<close> both succeed, and afterwards the pair has exactly one live row,
  of quantity \<open>q1 + q2\<close> (which does not wrap). The table has grown by that one row: the
  first add inserted it, the second called \<^verbatim>\<open>UpdateCartItem\<close> and not
  \<^verbatim>\<open>CreateCartItem\<close>.
\<close>

theorem add_item_twice_one_row:
  assumes nf: "db_faults (DB w) = []"
    and cart: "find (live_cart_of u) (carts (DB w)) = Some c"
    and prod: "find (\<lambda>p. Product_ID p = pid) (products (DB w)) = Some pr"
    and none: "filter (live_item_of (Cart_ID c) pid) (cart_items (DB w)) = []"
    and pool: "uuid_pool (DB w) = i # pool"
    and fresh: "i \<notin> set (map Item_ID (cart_items (DB w)))"
    and pid: "pid \<noteq> uuid_Nil"
    and q1: "0 < sint q1" and q2: "0 < sint q2"
    and stock: "sint q1 + sint q2 \<le> sint (Product_NumberOfStock pr)"
  shows "written (add_item u pid q1 w) = [] \<and> panicked (add_item u pid q1 w) = None \<and>
         written (add_item u pid q2 (after (add_item u pid q1 w))) = [] \<and>
         panicked (add_item u pid q2 (after (add_item u pid q1 w))) = None \<and>
         filter (live_item_of (Cart_ID c) pid)
           (cart_items (DB (after (add_item u pid q2 (after (add_item u pid q1 w)))))) =
           [\<lparr>Item_ID = i, Item_CartID = Cart_ID c, Item_ProductID = pid,
             Item_Quantity = q1 + q2, Item_DeletedAt = None\<rparr>] \<and>
         sint (q1 + q2) = sint q1 + sint q2 \<and>
         cart_items (DB (after (add_item u pid q2 (after (add_item u pid q1 w))))) =
           cart_items (DB w) @
             [\<lparr>Item_ID = i, Item_CartID = Cart_ID c, Item_ProductID = pid,
               Item_Quantity = q1 + q2, Item_DeletedAt = None\<rparr>] \<and>
         db_log (DB (after (add_item u pid q2 (after (add_item u pid q1 w))))) =
           db_log (DB w) @
             [OpGetCartByUserId, OpGetProductByUUID, OpGetCartItem, OpCreateCartItem,
              OpGetCartByUserId, OpGetProductByUUID, OpGetCartItem, OpUpdateCartItem]"
proof -
  let ?new = "\<lparr>Item_ID = i, Item_CartID = Cart_ID c, Item_ProductID = pid, Item_Quantity = q1,
               Item_DeletedAt = None\<rparr>"
  let ?r1 = "add_item u pid q1 w"
  have sum: "sint (q1 + q2) = sint q1 + sint q2"
    using sint_add_no_wrap [OF q1 q2 stock] .
  have b1: "\<not> q1 <s 1" "\<not> q2 <s 1"
    using q1 q2 by (simp_all add: word_sless_alt)
  have s1: "\<not> Product_NumberOfStock pr <s q1"
    using q2 stock by (simp add: word_sless_alt)
  have s2: "\<not> Product_NumberOfStock pr <s q2 + q1"
    using sum stock by (simp add: word_sless_alt add.commute)
  have fnone: "find (live_item_of (Cart_ID c) pid) (cart_items (DB w)) = None"
    using none by (simp add: find_None_iff filter_empty_conv)
  have r1: "?r1 = respond []
     \<lparr>DB = (DB w)\<lparr>db_log := db_log (DB w) @
                  [OpGetCartByUserId, OpGetProductByUUID, OpGetCartItem, OpCreateCartItem],
               uuid_pool := pool, cart_items := cart_items (DB w) @ [?new]\<rparr>,
      RDB = snd (RDB_Del (cacheKey_of (Cart_ID c)) (RDB w))\<rparr>"
    using nf cart prod fnone pool fresh pid b1 s1
    by (simp add: add_item_def AddOrUpdateCartItem_def ShouldBindJSON_def GetCartByUserId_def
        add_to_cart_def GetProductByUUID_def GetCartItem_def CreateCartItem_def
        clear_cart_cache_def db_call_nofault split: prod.splits)
  let ?st1 = "DB (after ?r1)"
  have nf1: "db_faults ?st1 = []"
    and cart1: "find (live_cart_of u) (carts ?st1) = Some c"
    and prod1: "find (\<lambda>p. Product_ID p = pid) (products ?st1) = Some pr"
    and items1: "cart_items ?st1 = cart_items (DB w) @ [?new]"
    and log1: "db_log ?st1 = db_log (DB w) @
                 [OpGetCartByUserId, OpGetProductByUUID, OpGetCartItem, OpCreateCartItem]"
    using nf cart prod by (simp_all add: r1 respond_def)
  have f1: "find (live_item_of (Cart_ID c) pid) (cart_items ?st1) = Some ?new"
    using none by (simp add: items1 find_append_new live_item_of_def)
  let ?r2 = "add_item u pid q2 (after ?r1)"
  have r2: "written ?r2 = [] \<and> panicked ?r2 = None \<and>
      cart_items (DB (after ?r2)) =
        map (\<lambda>r. if Item_ID r = i then ?new\<lparr>Item_Quantity := q1 + q2\<rparr> else r)
          (cart_items ?st1) \<and>
      db_log (DB (after ?r2)) =
        db_log ?st1 @ [OpGetCartByUserId, OpGetProductByUUID, OpGetCartItem, OpUpdateCartItem]"
    using nf1 cart1 prod1 f1 pid b1 s2
    by (simp add: add_item_def [of u pid q2] AddOrUpdateCartItem_def ShouldBindJSON_def
        GetCartByUserId_def add_to_cart_def GetProductByUUID_def GetCartItem_def
        UpdateCartItem_def clear_cart_cache_def db_call_nofault respond_def Let_def
        split: prod.splits)
  have rows: "cart_items (DB (after ?r2)) = cart_items (DB w) @ [?new\<lparr>Item_Quantity := q1 + q2\<rparr>]"
    using r2 fresh by (simp add: items1 map_replace_fresh)
  have "filter (live_item_of (Cart_ID c) pid) (cart_items (DB (after ?r2))) =
          [?new\<lparr>Item_Quantity := q1 + q2\<rparr>]"
    using none by (simp add: rows live_item_of_def)
  with r1 r2 rows log1 sum show ?thesis by (simp add: respond_def)
qed

theorem add_item_twice_one_row_witness:
  "db_faults (DB \<lparr>DB = demo_store [demo_cart] [] [demo_item_id] [],
                  RDB = demo_cache Map.empty []\<rparr>) = [] \<and>
   (0 :: int) < sint (3 :: go_int) \<and> 0 < sint (2 :: go_int) \<and>
   sint (3 :: go_int) + sint (2 :: go_int) \<le> sint (5 :: go_int) \<and>
   written (add_item demo_user demo_product 2 (after (add_item demo_user demo_product 3
     \<lparr>DB = demo_store [demo_cart] [] [demo_item_id] [], RDB = demo_cache Map.empty []\<rparr>))) = [] \<and>
   filter (live_item_of demo_cart_id demo_product)
     (cart_items (DB (after (add_item demo_user demo_product 2
       (after (add_item demo_user demo_product 3
         \<lparr>DB = demo_store [demo_cart] [] [demo_item_id] [],
          RDB = demo_cache Map.empty []\<rparr>)))))) =
     [demo_item 5] \<and>
   cart_items (DB (after (add_item demo_user demo_product 2
       (after (add_item demo_user demo_product 3
         \<lparr>DB = demo_store [demo_cart] [] [demo_item_id] [],
          RDB = demo_cache Map.empty []\<rparr>))))) =
     [demo_item 5]"
proof -
  let ?w = "\<lparr>DB = demo_store [demo_cart] [] [demo_item_id] [], RDB = demo_cache Map.empty []\<rparr>"
  let ?pr = "\<lparr>Product_ID = demo_product, Product_NumberOfStock = 5\<rparr>"
  have nf: "db_faults (DB ?w) = []" by (simp add: demo_store_def)
  have cart: "find (live_cart_of demo_user) (carts (DB ?w)) = Some demo_cart"
    by (simp add: demo_store_def demo_cart_def live_cart_of_def)
  have prod: "find (\<lambda>p. Product_ID p = demo_product) (products (DB ?w)) = Some ?pr"
    by (simp add: demo_store_def)
  have none: "filter (live_item_of (Cart_ID demo_cart) demo_product) (cart_items (DB ?w)) = []"
    by (simp add: demo_store_def)
  have pool: "uuid_pool (DB ?w) = demo_item_id # []" by (simp add: demo_store_def)
  have fresh: "demo_item_id \<notin> set (map Item_ID (cart_items (DB ?w)))"
    by (simp add: demo_store_def)
  have pid: "demo_product \<noteq> uuid_Nil" by (simp add: demo_product_def uuid_Nil_def)
  have q1: "0 < sint (3 :: go_int)" and q2: "0 < sint (2 :: go_int)" by simp_all
  have stock: "sint (3 :: go_int) + sint (2 :: go_int) \<le> sint (Product_NumberOfStock ?pr)"
    by simp
  have five: "sint (3 :: go_int) + sint (2 :: go_int) \<le> sint (5 :: go_int)" by simp
  have cid: "Cart_ID demo_cart = demo_cart_id" by (simp add: demo_cart_def)
  have row: "\<lparr>Item_ID = demo_item_id, Item_CartID = demo_cart_id,
              Item_ProductID = demo_product, Item_Quantity = 3 + 2, Item_DeletedAt = None\<rparr> =
             demo_item 5"
    by (simp add: demo_item_def)
  note T = add_item_twice_one_row [OF nf cart prod none pool fresh pid q1 q2 stock,
      unfolded cid, unfolded row]
  from T have t1: "written (add_item demo_user demo_product 2
      (after (add_item demo_user demo_product 3 ?w))) = []" by blast
  from T have t2: "filter (live_item_of demo_cart_id demo_product)
      (cart_items (DB (after (add_item demo_user demo_product 2
        (after (add_item demo_user demo_product 3 ?w)))))) = [demo_item 5]"
    by blast
  from T have t3: "cart_items (DB (after (add_item demo_user demo_product 2
        (after (add_item demo_user demo_product 3 ?w))))) = cart_items (DB ?w) @ [demo_item 5]"
    by blast
  have t3': "cart_items (DB ?w) @ [demo_item 5] = [demo_item 5]" by (simp add: demo_store_def)
  from nf q1 q2 five t1 t2 t3 [unfolded t3'] show ?thesis by blast
qed

text \<open>
  Claim C2. With a row of quantity \<open>q0\<close> in the cart and stock \<open>s\<close>, an add-item
  request whose quantity brings the total above \<open>s\<close> must fail with "Product out of
  stock" and leave the stored quantity at \<open>q0\<close>. The handler compares the stock with
  the wrapped 64-bit sum. With \<open>q0 = 1\<close>, stock 5 and the requested quantity
  9223372036854775807 (the largest \<^verbatim>\<open>int\<close>, accepted by \<^verbatim>\<open>min=1\<close>) the total exceeds
  the stock, yet the sum wraps to \<open>-9223372036854775808\<close>, the stock is not below it,
  and the handler stores that negative quantity and reports no error.
\<close>

theorem add_item_overflow_passes_stock_check:
  "written (add_item demo_user demo_product 9223372036854775807
      \<lparr>DB = demo_store [demo_cart] [demo_item 1] [] [], RDB = demo_cache Map.empty []\<rparr>) = [] \<and>
   panicked (add_item demo_user demo_product 9223372036854775807
      \<lparr>DB = demo_store [demo_cart] [demo_item 1] [] [], RDB = demo_cache Map.empty []\<rparr>) = None \<and>
   cart_items (DB (after (add_item demo_user demo_product 9223372036854775807
      \<lparr>DB = demo_store [demo_cart] [demo_item 1] [] [], RDB = demo_cache Map.empty []\<rparr>))) =
     [demo_item 9223372036854775808] \<and>
   sint (9223372036854775808 :: go_int) = - 9223372036854775808 \<and>
   sint (5 :: go_int) < sint (1 :: go_int) + sint (9223372036854775807 :: go_int)"
  by (simp add: handler_defs store_defs cache_defs demo_defs status_defs word_sless_alt)

section \<open>Responses of the item operations\<close>

text \<open>
  Claim C5. Every failure of the Cart Store, the product lookup and the loading of the
  items included, should reach the caller as an internal error with status 500. In the
  shop, with the store failing at the second call of the request:
  \<^item> list-items after a cache miss answers the failed \<^verbatim>\<open>GetCartItems\<close> with status
    401 (\<^verbatim>\<open>http.StatusUnauthorized\<close>), "Failed to fetch";
  \<^item> so does list-items after a cache error;
  \<^item> add-item answers the failed \<^verbatim>\<open>GetProductByUUID\<close> with status 400, "Product does
    not exist".
\<close>

theorem store_failure_answered_with_401_and_400:
  "written (GetAllCartItems (Parsed demo_user)
      \<lparr>DB = demo_store [demo_cart] [demo_item 3] [] [False, True],
       RDB = demo_cache Map.empty []\<rparr>) =
     [Failure 401 ''Failed to fetch'' (Some ErrStore)] \<and>
   written (GetAllCartItems (Parsed demo_user)
      \<lparr>DB = demo_store [demo_cart] [demo_item 3] [] [False, True],
       RDB = demo_cache Map.empty [True]\<rparr>) =
     [Failure 401 ''Failed to fetch'' (Some ErrStore)] \<and>
   written (add_item demo_user demo_product 1
      \<lparr>DB = demo_store [demo_cart] [demo_item 3] [] [False, True],
       RDB = demo_cache Map.empty []\<rparr>) =
     [Failure 400 ''Product does not exist'' None]"
  by (simp add: handler_defs store_defs cache_defs demo_defs status_defs word_sless_alt)

text \<open>
  Claim C6. A cart operation that completes successfully should answer with a success
  response carrying a status code, a message and a data payload. In the shop with an
  empty cart, add-item for two pieces inserts the row and deletes the cache key, and
  remove-item then deletes the row again; both handlers return without having written
  any response.
\<close>

theorem successful_item_writes_answer_nothing:
  "add_item demo_user demo_product 2
      \<lparr>DB = demo_store [demo_cart] [] [demo_item_id] [], RDB = demo_cache Map.empty []\<rparr> =
     \<lparr>written = [], panicked = None,
      after = \<lparr>DB = (demo_store [demo_cart] [demo_item 2] [] [])
                      \<lparr>db_log := [OpGetCartByUserId, OpGetProductByUUID, OpGetCartItem,
                                  OpCreateCartItem]\<rparr>,
               RDB = (demo_cache Map.empty [])
                      \<lparr>rdb_log := [OpDel (cacheKey_of demo_cart_id)]\<rparr>\<rparr>\<rparr> \<and>
   RemoveCartItemFromCart (Parsed demo_user) (Some demo_product)
      \<lparr>DB = demo_store [demo_cart] [demo_item 2] [] [], RDB = demo_cache Map.empty []\<rparr> =
     \<lparr>written = [], panicked = None,
      after = \<lparr>DB = (demo_store [demo_cart] [] [] [])
                      \<lparr>db_log := [OpGetCartByUserId, OpRemoveCartItemFrom]\<rparr>,
               RDB = (demo_cache Map.empty [])
                      \<lparr>rdb_log := [OpDel (cacheKey_of demo_user)]\<rparr>\<rparr>\<rparr>"
  by (simp add: handler_defs store_defs cache_defs demo_defs status_defs word_sless_alt)

section \<open>Removing an item and the cache\<close>

text \<open>
  Claim C1. After a successful remove-item the cache entry keyed by "cart:" and the
  cart's identifier should be gone, so that the next list-items read cannot return the
  snapshot taken before the removal. The handler builds its key from the user's
  identifier instead (line 323; add-item and list-items use \<^verbatim>\<open>cart.ID\<close>). In the shop:
  a first list-items read caches the cart's one row under the cart's key; remove-item
  deletes the row and sends \<^verbatim>\<open>DEL\<close> for the user's key; the entry under the cart's key
  is still there, and the next list-items read answers from the cache with the removed
  row.
\<close>

theorem remove_item_leaves_stale_cache_entry:
  "(let w0 = \<lparr>DB = demo_store [demo_cart] [demo_item 3] [] [], RDB = demo_cache Map.empty []\<rparr>;
        r1 = GetAllCartItems (Parsed demo_user) w0;
        r2 = RemoveCartItemFromCart (Parsed demo_user) (Some demo_product) (after r1);
        r3 = GetAllCartItems (Parsed demo_user) (after r2)
    in written r1 = [Success 200 ''data fetch successfully'' (ItemsData [demo_item 3])] \<and>
       written r2 = [] \<and> panicked r2 = None \<and>
       cart_items (DB (after r2)) = [] \<and>
       rdb_log (RDB (after r2)) =
         [OpGet (cacheKey_of demo_cart_id), OpSet (cacheKey_of demo_cart_id),
          OpDel (cacheKey_of demo_user)] \<and>
       entries (RDB (after r2)) (cacheKey_of demo_cart_id) =
         Some (Decodable [demo_item 3], cache_ttl) \<and>
       written r3 = [Success 200 ''data fetched from Redis'' (ItemsData [demo_item 3])])"
  by (simp add: handler_defs store_defs cache_defs demo_defs status_defs Let_def)

section \<open>The administrative handlers\<close>

text \<open>
  Claim C10. The administrative retrieval and deletion of a user's cart should look the
  cart up, respectively delete it, and invalidate the cache as remove-item does. Both
  handlers have an empty body: called for the shop's user, with the cart's items cached,
  neither calls the store or the cache nor writes a response; after DeleteCart the cart
  is still in the table and its cache entry still in the cache.
\<close>

theorem admin_handlers_do_nothing:
  "(let w = \<lparr>DB = demo_store [demo_cart] [demo_item 3] [] [],
             RDB = demo_cache [cacheKey_of demo_cart_id \<mapsto> (Decodable [demo_item 3], cache_ttl)]
                     []\<rparr>
    in GetCart demo_user w = \<lparr>written = [], panicked = None, after = w\<rparr> \<and>
       DeleteCart demo_user w = \<lparr>written = [], panicked = None, after = w\<rparr> \<and>
       carts (DB (after (DeleteCart demo_user w))) = [demo_cart] \<and>
       db_log (DB (after (DeleteCart demo_user w))) = [] \<and>
       rdb_log (RDB (after (DeleteCart demo_user w))) = [] \<and>
       entries (RDB (after (DeleteCart demo_user w))) (cacheKey_of demo_cart_id) =
         Some (Decodable [demo_item 3], cache_ttl))"
  by (simp add: GetCart_def DeleteCart_def respond_def demo_store_def demo_cache_def Let_def)

end
